theory Spec2Isabelle
  imports Complex_Main "HOL-Library.Sublist" "HOL-Library.Multiset"
begin

section \<open>JavaScript values\<close>

text \<open>
  The engine is generic in its facts and effects; the merge and path functions cast them
  to \<^verbatim>\<open>Record<string, unknown>\<close> and inspect them with \<^verbatim>\<open>typeof\<close>,
  \<^verbatim>\<open>Array.isArray\<close> and truthiness. The values modelled are the ones that survive
  \<^verbatim>\<open>cloneEffects\<close>' JSON fallback, plus \<^verbatim>\<open>undefined\<close>: an object is its list
  of own enumerable properties in insertion order, with distinct keys. Numbers are the
  integer-valued ones (no claim computes with them).
\<close>

datatype jsval =
    JUndefined
  | JNull
  | JBool bool
  | JNum int
  | JStr string
  | JArr "jsval list"
  | JObj "(string \<times> jsval) list"

type_synonym props = "(string \<times> jsval) list"

text \<open>Truthiness (\<^verbatim>\<open>Boolean(v)\<close>, \<^verbatim>\<open>v && ...\<close>, \<^verbatim>\<open>!v\<close>).\<close>

fun truthy :: "jsval \<Rightarrow> bool" where
  "truthy JUndefined = False"
| "truthy JNull = False"
| "truthy (JBool b) = b"
| "truthy (JNum n) = (n \<noteq> 0)"
| "truthy (JStr s) = (s \<noteq> [])"
| "truthy (JArr vs) = True"
| "truthy (JObj ps) = True"

fun typeof :: "jsval \<Rightarrow> string" where
  "typeof JUndefined = ''undefined''"
| "typeof JNull = ''object''"
| "typeof (JBool b) = ''boolean''"
| "typeof (JNum n) = ''number''"
| "typeof (JStr s) = ''string''"
| "typeof (JArr vs) = ''object''"
| "typeof (JObj ps) = ''object''"

fun isArray :: "jsval \<Rightarrow> bool" where
  "isArray (JArr vs) = True"
| "isArray v = False"

text \<open>
  The property key of an array index: its decimal digits (\<^verbatim>\<open>String(i)\<close>).
\<close>

function indexKey :: "nat \<Rightarrow> string" where
  "indexKey i =
     (let digit = char_of (i mod 10 + 48)
      in if i div 10 = 0 then [digit] else indexKey (i div 10) @ [digit])"
  by pat_completeness auto
termination
  by (relation "measure (\<lambda>i. i)") auto

text \<open>\<^verbatim>\<open>Object.entries(v)\<close>: the own enumerable string-keyed properties.\<close>

fun entries :: "jsval \<Rightarrow> props" where
  "entries (JObj ps) = ps"
| "entries (JArr vs) = zip (map indexKey [0..<length vs]) vs"
| "entries (JStr s) = zip (map indexKey [0..<length s]) (map (\<lambda>c. JStr [c]) s)"
| "entries v = []"

text \<open>
  \<^verbatim>\<open>target[key]\<close> and \<^verbatim>\<open>target[key] = value\<close> on a plain object: a missing key
  reads as \<^verbatim>\<open>undefined\<close>; a write keeps the position of an existing key and appends
  a new one.
\<close>

fun getOwn :: "props \<Rightarrow> string \<Rightarrow> jsval" where
  "getOwn [] key = JUndefined"
| "getOwn ((k, v) # ps) key = (if k = key then v else getOwn ps key)"

fun setOwn :: "props \<Rightarrow> string \<Rightarrow> jsval \<Rightarrow> props" where
  "setOwn [] key v = [(key, v)]"
| "setOwn ((k, w) # ps) key v = (if k = key then (k, v) # ps else (k, w) # setOwn ps key v)"

section \<open>Merging a patch into the working effects\<close>

datatype MergeStrategy = Assign | Deep

text \<open>
  \<^verbatim>\<open>
  function deepMerge(target, patch): void {
    for (const [key, value] of Object.entries(patch)) {
      if (value && typeof value === "object" && !Array.isArray(value)) {
        const current = target[key];
        if (!current || typeof current !== "object" || Array.isArray(current)) {
          target[key] = {};
        }
        deepMerge(target[key], value);
      } else {
        target[key] = value;
      }
    }
  }
  \<close>
  The source mutates \<^verbatim>\<open>target\<close>; the model returns the target's new properties. The
  loop runs over the patch's entries, which are the second argument.
\<close>

function deepMerge :: "props \<Rightarrow> props \<Rightarrow> props" where
  "deepMerge target [] = target"
| "deepMerge target ((key, v) # rest) =
     (if truthy v \<and> typeof v = ''object'' \<and> \<not> isArray v then
        let current = getOwn target key;
            target1 = (if \<not> truthy current \<or> typeof current \<noteq> ''object'' \<or> isArray current
                       then setOwn target key (JObj []) else target);
            inner = deepMerge (entries (getOwn target1 key)) (entries v)
        in deepMerge (setOwn target1 key (JObj inner)) rest
      else deepMerge (setOwn target key v) rest)"
  by pat_completeness auto
termination
  apply (relation "measure (\<lambda>(t, p). size (JObj p))")
     apply simp
  subgoal for target key v rest x xa by (cases v) auto
   apply simp_all
  done


text \<open>\<^verbatim>\<open>Object.assign(target, patch)\<close>: every own entry of the patch is written to the target.\<close>

fun objectAssign :: "props \<Rightarrow> props \<Rightarrow> props" where
  "objectAssign target [] = target"
| "objectAssign target ((key, v) # rest) = objectAssign (setOwn target key v) rest"

text \<open>
  \<^verbatim>\<open>
  function mergeEffects(target, patch, strategy): void {
    if (strategy === "assign") { Object.assign(target, patch); return; }
    deepMerge(target, patch);
  }
  \<close>
\<close>

definition mergeEffects :: "props \<Rightarrow> jsval \<Rightarrow> MergeStrategy \<Rightarrow> props" where
  "mergeEffects target patch strategy =
     (if strategy = Assign then objectAssign target (entries patch)
      else deepMerge target (entries patch))"

text \<open>
  The test \<^verbatim>\<open>v && typeof v === "object" && !Array.isArray(v)\<close> that \<^verbatim>\<open>deepMerge\<close>
  applies to a patched value and (negated) to the current target field.
\<close>

definition plainObject :: "jsval \<Rightarrow> bool" where
  "plainObject v = (truthy v \<and> typeof v = ''object'' \<and> \<not> isArray v)"

section \<open>Errors\<close>

text \<open>
  A thrown value is an \<^verbatim>\<open>Error\<close> or a \<^verbatim>\<open>TypeError\<close> with its message, or any
  other value. The run loop does two things with a caught value: it rethrows it, and it
  renders it with \<^verbatim>\<open>String(error)\<close>; so of a value that is not one of the two errors
  the model keeps the text \<^verbatim>\<open>String\<close> gives (\<^verbatim>\<open>throw "boom"\<close> is \<open>Thrown ''boom''\<close>).
  A value that \<^verbatim>\<open>String\<close> cannot render (an object without \<^verbatim>\<open>toString\<close>) is not
  among them.

  \<^verbatim>\<open>String(error)\<close> on an error is \<^verbatim>\<open>Error.prototype.toString\<close>: the name alone when
  the message is empty, otherwise name, colon, space, message.
\<close>

datatype exn = Error string | TypeError string | Thrown string

fun errorString :: "exn \<Rightarrow> string" where
  "errorString (Error msg) = (if msg = [] then ''Error'' else ''Error: '' @ msg)"
| "errorString (TypeError msg) = (if msg = [] then ''TypeError'' else ''TypeError: '' @ msg)"
| "errorString (Thrown rendering) = rendering"

section \<open>Field paths\<close>










section \<open>Conditions\<close>

text \<open>
  \<^verbatim>\<open>ConditionTrace = {label, result, left?, op?, right?, children?, reasonCode?}\<close>. An absent
  \<^verbatim>\<open>left\<close> or \<^verbatim>\<open>right\<close> is \<^verbatim>\<open>undefined\<close>.
\<close>

datatype ConditionTrace =
  ConditionTrace (label: string) (result: bool) (left: jsval) (op: "string option")
    (right: jsval) (children: "ConditionTrace list option") (reasonCode: "string option")

text \<open>
  A condition is a function from facts to a trace. It is a callback: the predicate a caller
  supplies may read and write state it closes over (the test suite's short-circuit test
  counts calls that way), so a condition is a transformer of that state, \<open>'w\<close>. The static
  \<^verbatim>\<open>meta\<close> attached to a condition is only read by the graph export and the telemetry
  attributes and is left out. A condition returns a trace, as its type says.
\<close>

type_synonym ('f, 'w) Condition = "'f \<Rightarrow> 'w \<Rightarrow> ConditionTrace \<times> 'w"

record Details =
  detailsLeft :: jsval
  detailsOp :: "string option"
  detailsRight :: jsval

datatype ('f, 'w) ConditionOptions =
    NoOptions
  | DetailsFn "'f \<Rightarrow> 'w \<Rightarrow> Details \<times> 'w"
  | Options "('f \<Rightarrow> 'w \<Rightarrow> Details \<times> 'w) option" "string option"

text \<open>
  \<^verbatim>\<open>
  export function condition(label, test, options?) {
    const meta = { label, reasonCode: typeof options === "object" ? options?.reasonCode : undefined, kind: "atomic" };
    const cond = (facts) => {
      const result = test(facts);
      const details = typeof options === "function" ? options : options?.details;
      const info = details ? details(facts) : undefined;
      return { label, result, left: info?.left, op: info?.op, right: info?.right, reasonCode: meta.reasonCode };
    };
    ...
  }
  \<close>
\<close>

definition condition ::
  "string \<Rightarrow> ('f \<Rightarrow> 'w \<Rightarrow> bool \<times> 'w) \<Rightarrow> ('f, 'w) ConditionOptions \<Rightarrow> ('f, 'w) Condition" where
  "condition lbl test options =
     (\<lambda>facts w.
        let metaReasonCode = (case options of Options d rc \<Rightarrow> rc | _ \<Rightarrow> None);
            (res, w1) = test facts w;
            details = (case options of DetailsFn d \<Rightarrow> Some d | Options d rc \<Rightarrow> d | NoOptions \<Rightarrow> None)
        in case details of
             None \<Rightarrow> (ConditionTrace lbl res JUndefined None JUndefined None metaReasonCode, w1)
           | Some d \<Rightarrow>
               (let (info, w2) = d facts w1
                in (ConditionTrace lbl res (detailsLeft info) (detailsOp info) (detailsRight info)
                      None metaReasonCode, w2)))"

text \<open>\<^verbatim>\<open>ConditionLabel = string | { label: string }\<close>; an empty string is falsy.\<close>

datatype ConditionLabel = LabelString string | LabelObject string

fun resolveLabel :: "string \<Rightarrow> ConditionLabel option \<Rightarrow> string" where
  "resolveLabel defaultLabel None = defaultLabel"
| "resolveLabel defaultLabel (Some (LabelString s)) = (if s = [] then defaultLabel else s)"
| "resolveLabel defaultLabel (Some (LabelObject s)) = s"

text \<open>
  The argument list of \<^verbatim>\<open>and\<close>/\<^verbatim>\<open>or\<close>, by their two overloads: conditions only, or
  a label followed by conditions. \<^verbatim>\<open>splitArgs\<close> tells them apart by the type of the first
  argument.
\<close>

datatype 'c Args = Conditions "'c list" | Labelled ConditionLabel "'c list"

fun splitArgs :: "string \<Rightarrow> 'c Args \<Rightarrow> string \<times> 'c list" where
  "splitArgs defaultLabel (Conditions cs) = (defaultLabel, cs)"
| "splitArgs defaultLabel (Labelled l cs) = (resolveLabel defaultLabel (Some l), cs)"

text \<open>
  \<open>withLabel\<close> writes an argument list from an optional label and the conditions.
\<close>

definition withLabel :: "ConditionLabel option \<Rightarrow> 'c list \<Rightarrow> 'c Args" where
  "withLabel lo cs = (case lo of None \<Rightarrow> Conditions cs | Some l \<Rightarrow> Labelled l cs)"

text \<open>\<^verbatim>\<open>conditions.map((cond) => cond(facts))\<close>: every condition is called, in order.\<close>

fun mapConditions :: "('f, 'w) Condition list \<Rightarrow> 'f \<Rightarrow> 'w \<Rightarrow> ConditionTrace list \<times> 'w" where
  "mapConditions [] facts w = ([], w)"
| "mapConditions (c # cs) facts w =
     (let (t, w1) = c facts w;
          (ts, w2) = mapConditions cs facts w1
      in (t # ts, w2))"

text \<open>
  \<^verbatim>\<open>
  function and(...args) {
    const { label, conditions } = splitArgs("and", args);
    const cond = (facts) => {
      const children = conditions.map((cond) => cond(facts));
      const result = children.every((child) => child.result);
      return { label, result, op: "and", left: children.map((child) => child.label),
               right: undefined, children };
    };
    ...
  }
  \<close>
  and \<^verbatim>\<open>or\<close> likewise with \<^verbatim>\<open>children.some(...)\<close> and \<^verbatim>\<open>op: "or"\<close>.
\<close>

definition op_and :: "('f, 'w) Condition Args \<Rightarrow> ('f, 'w) Condition" where
  "op_and args =
     (let (lbl, conditions) = splitArgs ''and'' args
      in (\<lambda>facts w.
            let (childTraces, w1) = mapConditions conditions facts w;
                res = list_all result childTraces
            in (ConditionTrace lbl res (JArr (map (\<lambda>child. JStr (label child)) childTraces))
                  (Some ''and'') JUndefined (Some childTraces) None, w1)))"

definition op_or :: "('f, 'w) Condition Args \<Rightarrow> ('f, 'w) Condition" where
  "op_or args =
     (let (lbl, conditions) = splitArgs ''or'' args
      in (\<lambda>facts w.
            let (childTraces, w1) = mapConditions conditions facts w;
                res = list_ex result childTraces
            in (ConditionTrace lbl res (JArr (map (\<lambda>child. JStr (label child)) childTraces))
                  (Some ''or'') JUndefined (Some childTraces) None, w1)))"

text \<open>
  A counting stub, as the specification's testable properties use: the condition \<open>c\<close>
  wrapped so that every call appends the position \<open>i\<close> to a log kept beside the state
  \<open>c\<close> itself works on. The log after a run lists the calls made, in order.
\<close>

definition probe :: "nat \<Rightarrow> ('f, 'w) Condition \<Rightarrow> ('f, nat list \<times> 'w) Condition" where
  "probe i c = (\<lambda>facts (calls, w). let (t, w1) = c facts w in (t, (calls @ [i], w1)))"

definition probes :: "('f, 'w) Condition list \<Rightarrow> ('f, nat list \<times> 'w) Condition list" where
  "probes cs = map (\<lambda>(i, c). probe i c) (zip [0..<length cs] cs)"


section \<open>Rules\<close>

text \<open>
  \<^verbatim>\<open>RuleMeta = { tags?, description?, version?, reasonCode?, enabled? }\<close>;
  \<^verbatim>\<open>reasonCode\<close> is written \<open>ruleReasonCode\<close>.
\<close>

record RuleMeta =
  tags :: "string list option"
  description :: "string option"
  version :: "string option"
  ruleReasonCode :: "string option"
  enabled :: "bool option"

text \<open>
  Effects are plain objects (the merge functions cast them to
  \<^verbatim>\<open>Record<string, unknown>\<close>). Under the "mutable" mode the run shares one effects
  object with every action, under "immutable" it clones, and a claim asks which object a
  run returns; so an effects object carries its identity: the number of objects allocated
  before it.
\<close>

record EffectsObj =
  ident :: nat
  content :: props

text \<open>
  An action is called with \<^verbatim>\<open>{ facts, effects: workingEffects, trace: { note } }\<close>. What
  the run loop can observe of the call: the content of the working effects object when the
  call completes (the action may have mutated it in place), the messages it passed to
  \<^verbatim>\<open>trace.note\<close>, its writes to the state it closes over, and how it completed: it
  returned a value, returned a Promise (an action given to \<^verbatim>\<open>thenAsync\<close>; what it
  mutated before its first suspension is already done), or threw.
\<close>

datatype ActionReturn = Value jsval | Promise

datatype Completion = Returns ActionReturn | Throws exn

record ActionOutcome =
  effectsAfter :: props
  notesAdded :: "string list"
  completion :: Completion

type_synonym ('f, 'w) Action = "'f \<Rightarrow> props \<Rightarrow> 'w \<Rightarrow> ActionOutcome \<times> 'w"

text \<open>
  \<^verbatim>\<open>Rule = { id, priority, order, conditions, action, meta? }\<close>; \<^verbatim>\<open>id\<close> is
  written \<open>rule_id\<close>. Priorities are the finite numbers, as reals: the comparator below
  only uses the sign of a difference, which rounding keeps. \<^verbatim>\<open>NaN\<close>, on which the
  comparator is inconsistent, is not a value here. \<^verbatim>\<open>order\<close> is a counter.
\<close>

record ('f, 'w) Rule =
  rule_id :: string
  priority :: real
  order :: int
  conditions :: "('f, 'w) Condition list"
  action :: "('f, 'w) Action"
  meta :: "RuleMeta option"

text \<open>
  The default-effects factory \<^verbatim>\<open>() => Effects\<close> is a callback as well. The factories
  modelled are those that build their object when called, as \<^verbatim>\<open>() => ({ flags: [] })\<close>
  does: a call yields the content of a new object, which may depend on the state the
  factory closes over. (A factory that hands out an object built earlier,
  \<^verbatim>\<open>() => shared\<close>, returns an object that earlier runs have written to; it would need
  the store that object lives in and is not modelled.)
\<close>

type_synonym 'w DefaultEffectsFactory = "'w \<Rightarrow> props \<times> 'w"

text \<open>\<^verbatim>\<open>() => ({ ... })\<close>: a new object with the given content on each call.\<close>

definition freshEffects :: "props \<Rightarrow> 'w DefaultEffectsFactory" where
  "freshEffects c = (\<lambda>w. (c, w))"

text \<open>
  A validator, \<^verbatim>\<open>(facts) => void\<close> or \<^verbatim>\<open>(effects) => void\<close>, is a callback too: it
  inspects its argument, may read and write the state it closes over, and returns or
  throws; \<open>Some e\<close> is the value it throws.
\<close>

type_synonym ('a, 'w) Validator = "'a \<Rightarrow> 'w \<Rightarrow> exn option \<times> 'w"

section \<open>The ruleset builder\<close>

text \<open>
  The fields of \<^verbatim>\<open>RulesetBuilderImpl\<close> and \<^verbatim>\<open>RuleBuilderImpl\<close>, written
  \<open>this_\<close> as the methods read them. The registry id and the telemetry adapter do not
  reach a run's result and are left out (the adapter is unset: \<^verbatim>\<open>runWithSpan\<close> calls
  its function argument directly).
\<close>

record ('f, 'w) RulesetBuilder =
  this_name :: "string option"
  this_rules :: "('f, 'w) Rule list"
  this_defaultEffectsFactory :: "'w DefaultEffectsFactory option"
  this_validateFactsFn :: "('f, 'w) Validator option"
  this_validateEffectsFn :: "(props, 'w) Validator option"
  this_nextOrder :: int

record ('f, 'w) RuleBuilder =
  this_id :: string
  this_priorityValue :: real
  this_conditions :: "('f, 'w) Condition list"
  this_action :: "('f, 'w) Action option"
  this_metaValue :: RuleMeta

definition ruleset :: "string option \<Rightarrow> ('f, 'w) RulesetBuilder" where
  "ruleset nm =
     \<lparr>this_name = nm, this_rules = [], this_defaultEffectsFactory = None,
      this_validateFactsFn = None, this_validateEffectsFn = None, this_nextOrder = 0\<rparr>"

definition defaultEffects ::
  "'w DefaultEffectsFactory \<Rightarrow> ('f, 'w) RulesetBuilder \<Rightarrow> ('f, 'w) RulesetBuilder" where
  "defaultEffects factory b = b\<lparr>this_defaultEffectsFactory := Some factory\<rparr>"

definition validateFacts ::
  "('f, 'w) Validator \<Rightarrow> ('f, 'w) RulesetBuilder \<Rightarrow> ('f, 'w) RulesetBuilder" where
  "validateFacts validator b = b\<lparr>this_validateFactsFn := Some validator\<rparr>"

definition validateEffects ::
  "(props, 'w) Validator \<Rightarrow> ('f, 'w) RulesetBuilder \<Rightarrow> ('f, 'w) RulesetBuilder" where
  "validateEffects validator b = b\<lparr>this_validateEffectsFn := Some validator\<rparr>"

text \<open>
  \<^verbatim>\<open>metaValue\<close> starts as \<^verbatim>\<open>{}\<close>. Each setter modelled adds its key with a value, so
  the object has no keys exactly when every field is absent.
\<close>

definition emptyMeta :: RuleMeta where
  "emptyMeta = \<lparr>tags = None, description = None, version = None, ruleReasonCode = None,
                 enabled = None\<rparr>"

text \<open>\<^verbatim>\<open>ruleset.rule(id)\<close>: a rule builder with priority 0, no conditions, no action.\<close>

definition rule :: "string \<Rightarrow> ('f, 'w) RuleBuilder" where
  "rule i =
     \<lparr>this_id = i, this_priorityValue = 0, this_conditions = [], this_action = None,
      this_metaValue = emptyMeta\<rparr>"

text \<open>
  The setters \<^verbatim>\<open>priority(value)\<close>, \<^verbatim>\<open>when(...conditions)\<close>, \<^verbatim>\<open>tags(...tags)\<close>,
  \<^verbatim>\<open>enabled(enabled)\<close> and \<^verbatim>\<open>then(action)\<close> (\<^verbatim>\<open>thenAsync\<close> stores the action in
  the same field).
\<close>

definition rule_priority :: "real \<Rightarrow> ('f, 'w) RuleBuilder \<Rightarrow> ('f, 'w) RuleBuilder" where
  "rule_priority v rb = rb\<lparr>this_priorityValue := v\<rparr>"

definition rule_when ::
  "('f, 'w) Condition list \<Rightarrow> ('f, 'w) RuleBuilder \<Rightarrow> ('f, 'w) RuleBuilder" where
  "rule_when cs rb = rb\<lparr>this_conditions := cs\<rparr>"

definition rule_tags :: "string list \<Rightarrow> ('f, 'w) RuleBuilder \<Rightarrow> ('f, 'w) RuleBuilder" where
  "rule_tags ts rb = rb\<lparr>this_metaValue := (this_metaValue rb)\<lparr>tags := Some ts\<rparr>\<rparr>"

definition rule_enabled :: "bool \<Rightarrow> ('f, 'w) RuleBuilder \<Rightarrow> ('f, 'w) RuleBuilder" where
  "rule_enabled e rb = rb\<lparr>this_metaValue := (this_metaValue rb)\<lparr>enabled := Some e\<rparr>\<rparr>"

definition rule_then :: "('f, 'w) Action \<Rightarrow> ('f, 'w) RuleBuilder \<Rightarrow> ('f, 'w) RuleBuilder" where
  "rule_then a rb = rb\<lparr>this_action := Some a\<rparr>"

text \<open>
  \<^verbatim>\<open>
  end() {
    if (!this.action) { throw new Error("then() is required before end()."); }
    const rule = { id: this.id, priority: this.priorityValue, order: this.ruleset._nextOrder(),
                   conditions: this.conditions, action: this.action,
                   meta: Object.keys(this.metaValue).length ? this.metaValue : undefined };
    this.ruleset._addRule(rule);
    return this.ruleset;
  }
  \<close>
  The rule builder holds a reference to its ruleset; the model passes the ruleset's state
  at the time of the call and returns the new one.
\<close>

definition rule_end ::
  "('f, 'w) RuleBuilder \<Rightarrow> ('f, 'w) RulesetBuilder \<Rightarrow> exn + ('f, 'w) RulesetBuilder" where
  "rule_end rb b =
     (case this_action rb of
        None \<Rightarrow> Inl (Error ''then() is required before end().'')
      | Some a \<Rightarrow>
          Inr (b\<lparr>this_rules := this_rules b @
                    [\<lparr>rule_id = this_id rb, priority = this_priorityValue rb,
                      order = this_nextOrder b, conditions = this_conditions rb, action = a,
                      meta = (if this_metaValue rb = emptyMeta then None
                              else Some (this_metaValue rb))\<rparr>],
                  this_nextOrder := this_nextOrder b + 1\<rparr>))"


text \<open>
  \<^verbatim>\<open>
  const sortedRules = [...this.rules].sort((a, b) => {
    if (a.priority !== b.priority) { return b.priority - a.priority; }
    return a.order - b.order;
  });
  \<close>
  \<^verbatim>\<open>Array.prototype.sort\<close> is the host's: a stable sort, whose result for a consistent
  comparator is the sorted arrangement that keeps equal elements in their given order.
  \<open>sortBy\<close> computes that arrangement by stable insertion.
\<close>

definition compareRules :: "('f, 'w) Rule \<Rightarrow> ('f, 'w) Rule \<Rightarrow> real" where
  "compareRules a b =
     (if priority a \<noteq> priority b then priority b - priority a
      else real_of_int (order a - order b))"

fun insertBy :: "('a \<Rightarrow> 'a \<Rightarrow> real) \<Rightarrow> 'a \<Rightarrow> 'a list \<Rightarrow> 'a list" where
  "insertBy cmp x [] = [x]"
| "insertBy cmp x (y # ys) = (if cmp x y \<le> 0 then x # y # ys else y # insertBy cmp x ys)"

definition sortBy :: "('a \<Rightarrow> 'a \<Rightarrow> real) \<Rightarrow> 'a list \<Rightarrow> 'a list" where
  "sortBy cmp xs = foldr (insertBy cmp) xs []"

text \<open>
  What \<^verbatim>\<open>compile()\<close> returns: the closures \<^verbatim>\<open>run\<close> and \<^verbatim>\<open>runAsync\<close>.
  \<^verbatim>\<open>
  compile() {
    const defaultEffectsFactory = this.defaultEffectsFactory;
    if (!defaultEffectsFactory) { throw new Error("defaultEffects() is required before compile()."); }
    const sortedRules = [...this.rules].sort(...);
    return {
      run: ({ facts, activation = "all", ... }) =>
        runSync({ facts, ..., rules: sortedRules, defaultEffectsFactory,
                  validateFactsFn: this.validateFactsFn,
                  validateEffectsFn: this.validateEffectsFn, ... }),
      runAsync: ...
    };
  }
  \<close>
  The closures hold the sorted copy of the rules and the factory, both taken when
  \<^verbatim>\<open>compile()\<close> is called, and \<^verbatim>\<open>this\<close>, the builder object itself: the validators
  are read from it at each run. \<open>engineThis\<close> is the state of that object; a call made on
  the builder after \<^verbatim>\<open>compile()\<close> changes it, which \<open>afterCompile\<close> writes.
\<close>

record ('f, 'w) Engine =
  sortedRules :: "('f, 'w) Rule list"
  engineFactory :: "'w DefaultEffectsFactory"
  engineThis :: "('f, 'w) RulesetBuilder"

definition compile :: "('f, 'w) RulesetBuilder \<Rightarrow> exn + ('f, 'w) Engine" where
  "compile b =
     (case this_defaultEffectsFactory b of
        None \<Rightarrow> Inl (Error ''defaultEffects() is required before compile().'')
      | Some factory \<Rightarrow>
          Inr \<lparr>sortedRules = sortBy compareRules (this_rules b), engineFactory = factory,
               engineThis = b\<rparr>)"

definition afterCompile ::
  "(('f, 'w) RulesetBuilder \<Rightarrow> ('f, 'w) RulesetBuilder) \<Rightarrow> ('f, 'w) Engine \<Rightarrow> ('f, 'w) Engine" where
  "afterCompile call engine = engine\<lparr>engineThis := call (engineThis engine)\<rparr>"


section \<open>The run loop\<close>

datatype RuleActivation = ActivationAll | ActivationFirst

datatype EffectsMode = Mutable | Immutable

text \<open>
  \<^verbatim>\<open>RuleTrace = { ruleId, matched, conditions, notes, durationMs?, error?, meta?, skippedReason? }\<close>;
  \<^verbatim>\<open>conditions\<close>, \<^verbatim>\<open>notes\<close> and \<^verbatim>\<open>meta\<close> are written \<open>traceConditions\<close>,
  \<open>traceNotes\<close> and \<open>traceMeta\<close>.
\<close>

record RuleTrace =
  ruleId :: string
  matched :: bool
  traceConditions :: "ConditionTrace list"
  traceNotes :: "string list"
  durationMs :: "int option"
  error :: "string option"
  traceMeta :: "RuleMeta option"
  skippedReason :: "string option"

text \<open>
  The argument of \<^verbatim>\<open>engine.run\<close>, after its defaults are filled in, and \<^verbatim>\<open>RunInput\<close>,
  which adds the rules, the factory and the validators.
\<close>

record 'f RunOptions =
  facts :: 'f
  activation :: RuleActivation
  effectsMode :: EffectsMode
  mergeStrategy :: MergeStrategy
  rollbackOnError :: bool
  includeTags :: "string list option"
  excludeTags :: "string list option"

record ('f, 'w) RunInput = "'f RunOptions" +
  rules :: "('f, 'w) Rule list"
  defaultEffectsFactory :: "'w DefaultEffectsFactory"
  validateFactsFn :: "('f, 'w) Validator option"
  validateEffectsFn :: "(props, 'w) Validator option"

text \<open>\<^verbatim>\<open>run({ facts })\<close>: the defaults of the destructuring in \<^verbatim>\<open>run\<close>.\<close>

definition runOptions :: "'f \<Rightarrow> 'f RunOptions" where
  "runOptions f =
     \<lparr>facts = f, activation = ActivationAll, effectsMode = Mutable, mergeStrategy = Assign,
      rollbackOnError = False, includeTags = None, excludeTags = None\<rparr>"

record RunResult =
  effects :: EffectsObj
  fired :: "string list"
  trace :: "RuleTrace list"

text \<open>
  What a run reads and changes outside its own variables: the state the callbacks close
  over, the number of objects allocated, and the number of times the clock has been read.
  \<^verbatim>\<open>Date.now()\<close> reads a clock \<open>now\<close>, whose \<open>n\<close>-th reading is \<open>now n\<close>.
\<close>

record 'w Env =
  world :: 'w
  allocated :: nat
  clockReads :: nat

definition dateNow :: "(nat \<Rightarrow> int) \<Rightarrow> 'w Env \<Rightarrow> int \<times> 'w Env" where
  "dateNow now env = (now (clockReads env), env\<lparr>clockReads := Suc (clockReads env)\<rparr>)"

text \<open>
  \<^verbatim>\<open>cloneEffects\<close> (\<^verbatim>\<open>structuredClone\<close>): a new object with the same content.
\<close>

definition cloneEffects :: "EffectsObj \<Rightarrow> 'w Env \<Rightarrow> EffectsObj \<times> 'w Env" where
  "cloneEffects e env =
     (\<lparr>ident = allocated env, content = content e\<rparr>, env\<lparr>allocated := Suc (allocated env)\<rparr>)"

text \<open>
  \<^verbatim>\<open>
  function getSkipReason(meta, includeTags?, excludeTags?): string | undefined {
    if (meta?.enabled === false) { return "disabled"; }
    const tags = meta?.tags ?? [];
    if (includeTags && includeTags.length > 0 && !includeTags.some((tag) => tags.includes(tag))) {
      return "tag-filtered";
    }
    if (excludeTags && excludeTags.length > 0 && excludeTags.some((tag) => tags.includes(tag))) {
      return "tag-excluded";
    }
    return undefined;
  }
  \<close>
\<close>

definition getSkipReason ::
  "RuleMeta option \<Rightarrow> string list option \<Rightarrow> string list option \<Rightarrow> string option" where
  "getSkipReason m incl excl =
     (if (case m of None \<Rightarrow> False | Some mt \<Rightarrow> enabled mt = Some False) then Some ''disabled''
      else
        let ruleTags = (case m of None \<Rightarrow> []
                        | Some mt \<Rightarrow> (case tags mt of None \<Rightarrow> [] | Some ts \<Rightarrow> ts))
        in if (case incl of None \<Rightarrow> False
               | Some inc \<Rightarrow> 0 < length inc \<and> \<not> list_ex (\<lambda>tag. List.member ruleTags tag) inc)
           then Some ''tag-filtered''
           else if (case excl of None \<Rightarrow> False
                    | Some exc \<Rightarrow> 0 < length exc \<and> list_ex (\<lambda>tag. List.member ruleTags tag) exc)
           then Some ''tag-excluded''
           else None)"

text \<open>
  The loop over a rule's conditions:
  \<^verbatim>\<open>
  let matched = true;
  for (const condition of rule.conditions) {
    const conditionTrace = runWithSpan(..., () => condition(facts));
    ruleTrace.conditions.push(conditionTrace);
    if (!conditionTrace.result) { matched = false; break; }
  }
  \<close>
  It yields \<^verbatim>\<open>matched\<close>, the traces pushed, and the callbacks' state.
\<close>

fun evalConditions ::
  "('f, 'w) Condition list \<Rightarrow> 'f \<Rightarrow> 'w \<Rightarrow> bool \<times> ConditionTrace list \<times> 'w" where
  "evalConditions [] f w = (True, [], w)"
| "evalConditions (c # cs) f w =
     (let (conditionTrace, w1) = c f w
      in if \<not> result conditionTrace then (False, [conditionTrace], w1)
         else (let (isMatched, pushed, w2) = evalConditions cs f w1
               in (isMatched, conditionTrace # pushed, w2)))"

text \<open>
  \<^verbatim>\<open>isPromise(value)\<close>: \<^verbatim>\<open>Boolean(value) && typeof value.then === "function"\<close>. No
  value modelled has a function for a property, so the Promises are the thenables.
\<close>

fun isPromise :: "ActionReturn \<Rightarrow> bool" where
  "isPromise Promise = True"
| "isPromise (Value v) = False"

text \<open>
  The matched branch up to the end of its \<^verbatim>\<open>try\<close>/\<^verbatim>\<open>catch\<close>:
  \<^verbatim>\<open>
  const workingEffects = effectsMode === "immutable" ? cloneEffects(effects) : effects;
  const ctx = { facts, effects: workingEffects, trace: { note: (m) => { ruleTrace.notes.push(m); } } };
  try {
    const patch = runWithSpan(..., () => rule.action(ctx));
    if (isPromise(patch)) { throw new Error("Async rule action detected. Use runAsync()."); }
    if (patch && typeof patch === "object") { mergeEffects(workingEffects, patch, mergeStrategy); }
    if (effectsMode === "immutable") { effects = workingEffects; }
  } catch (error) {
    ruleTrace.error = String(error);
    ruleTrace.notes.push("error: " + String(error));
    if (!rollbackOnError) { throw error; }
    if (effectsMode === "immutable") { effects = effects; }
  }
  \<close>
  It yields the object \<^verbatim>\<open>effects\<close> then denotes, with its content, and the rule trace.
  Under "mutable" \<^verbatim>\<open>workingEffects\<close> is \<^verbatim>\<open>effects\<close> itself, so whatever the action
  and the merge wrote is in \<^verbatim>\<open>effects\<close>, also when the \<^verbatim>\<open>catch\<close> swallows an error.
\<close>

definition runAction ::
  "('f, 'w) RunInput \<Rightarrow> ('f, 'w) Rule \<Rightarrow> EffectsObj \<Rightarrow> RuleTrace \<Rightarrow> 'w Env \<Rightarrow>
     exn + (EffectsObj \<times> RuleTrace \<times> 'w Env)" where
  "runAction inp r effects0 ruleTrace env =
     (let (workingEffects, env1) =
            (if effectsMode inp = Immutable then cloneEffects effects0 env else (effects0, env));
          (outcome, w1) = action r (facts inp) (content workingEffects) (world env1);
          env2 = env1\<lparr>world := w1\<rparr>;
          mutated = workingEffects\<lparr>content := effectsAfter outcome\<rparr>;
          ruleTrace1 = ruleTrace\<lparr>traceNotes := traceNotes ruleTrace @ notesAdded outcome\<rparr>;
          attempt =
            (case completion outcome of
               Throws e \<Rightarrow> Inl e
             | Returns patch \<Rightarrow>
                 if isPromise patch then Inl (Error ''Async rule action detected. Use runAsync().'')
                 else Inr (case patch of
                             Value v \<Rightarrow>
                               if truthy v \<and> typeof v = ''object''
                               then mutated\<lparr>content := mergeEffects (content mutated) v (mergeStrategy inp)\<rparr>
                               else mutated
                           | Promise \<Rightarrow> mutated))
      in case attempt of
           Inr committed \<Rightarrow> Inr (committed, ruleTrace1, env2)
         | Inl e \<Rightarrow>
             (let ruleTrace2 = ruleTrace1\<lparr>error := Some (errorString e),
                                 traceNotes := traceNotes ruleTrace1 @ [''error: '' @ errorString e]\<rparr>
              in if \<not> rollbackOnError inp then Inl e
                 else Inr (if effectsMode inp = Immutable then effects0 else mutated,
                           ruleTrace2, env2)))"

text \<open>
  The body of \<^verbatim>\<open>for (const rule of rules)\<close> in \<^verbatim>\<open>runSync\<close>. It yields the run's
  \<^verbatim>\<open>effects\<close>, \<^verbatim>\<open>fired\<close> and \<^verbatim>\<open>trace\<close> after the rule, and whether the loop breaks;
  \<open>Inl\<close> is the error the body throws.
\<close>

definition runRule ::
  "(nat \<Rightarrow> int) \<Rightarrow> ('f, 'w) RunInput \<Rightarrow> ('f, 'w) Rule \<Rightarrow> RunResult \<times> 'w Env \<Rightarrow>
     exn + ((RunResult \<times> 'w Env) \<times> bool)" where
  "runRule now inp r st =
     (let (res, env) = st;
          (start, env1) = dateNow now env;
          ruleTrace = \<lparr>ruleId = rule_id r, matched = False, traceConditions = [], traceNotes = [],
                       durationMs = None, error = None, traceMeta = meta r,
                       skippedReason = None\<rparr>
      in case getSkipReason (meta r) (includeTags inp) (excludeTags inp) of
           Some skipReason \<Rightarrow>
             (let (finish, env2) = dateNow now env1;
                  ruleTrace1 = ruleTrace\<lparr>skippedReason := Some skipReason,
                                          durationMs := Some (finish - start)\<rparr>
              in Inr ((res\<lparr>trace := trace res @ [ruleTrace1]\<rparr>, env2), False))
         | None \<Rightarrow>
             (let (isMatched, pushed, w1) = evalConditions (conditions r) (facts inp) (world env1);
                  env2 = env1\<lparr>world := w1\<rparr>;
                  ruleTrace1 = ruleTrace\<lparr>traceConditions := pushed, matched := isMatched\<rparr>
              in if isMatched then
                   (case runAction inp r (effects res) ruleTrace1 env2 of
                      Inl e \<Rightarrow> Inl e
                    | Inr (effects1, ruleTrace2, env3) \<Rightarrow>
                        (let (finish, env4) = dateNow now env3;
                             ruleTrace3 = ruleTrace2\<lparr>durationMs := Some (finish - start)\<rparr>
                         in Inr ((\<lparr>effects = effects1, fired = fired res @ [rule_id r],
                                   trace = trace res @ [ruleTrace3]\<rparr>, env4),
                                 activation inp = ActivationFirst)))
                 else
                   (let (finish, env3) = dateNow now env2;
                        ruleTrace2 = ruleTrace1\<lparr>durationMs := Some (finish - start)\<rparr>
                    in Inr ((res\<lparr>trace := trace res @ [ruleTrace2]\<rparr>, env3), False))))"

fun runRules ::
  "(nat \<Rightarrow> int) \<Rightarrow> ('f, 'w) RunInput \<Rightarrow> ('f, 'w) Rule list \<Rightarrow> RunResult \<times> 'w Env \<Rightarrow>
     exn + (RunResult \<times> 'w Env)" where
  "runRules now inp [] st = Inr st"
| "runRules now inp (r # rs) st =
     (case runRule now inp r st of
        Inl e \<Rightarrow> Inl e
      | Inr (st1, stop) \<Rightarrow> if stop then Inr st1 else runRules now inp rs st1)"

text \<open>
  \<^verbatim>\<open>
  function runSync({ facts, ..., rules, defaultEffectsFactory, validateFactsFn, validateEffectsFn, ... }) {
    validateFactsFn?.(facts);
    let effects = defaultEffectsFactory();
    validateEffectsFn?.(effects);
    const trace = []; const fired = [];
    for (const rule of rules) { ... }
    validateEffectsFn?.(effects);
    if (registryId) { registry.recordTrace(registryId, trace, fired, facts); }
    return { effects, fired, trace, explain: () => explainTrace(trace, rulesetName) };
  }
  \<close>
  The registry call records the trace elsewhere and \<^verbatim>\<open>explain\<close> renders it on demand;
  neither changes what is returned, and both are left out.
\<close>

text \<open>
  \<^verbatim>\<open>validateFactsFn?.(facts)\<close>: the validator, when there is one, is called on the state
  of the callbacks; \<open>Inl\<close> is what it throws.
\<close>

definition validate :: "('a, 'w) Validator option \<Rightarrow> 'a \<Rightarrow> 'w Env \<Rightarrow> exn + 'w Env" where
  "validate fn x env =
     (case fn of
        None \<Rightarrow> Inr env
      | Some validator \<Rightarrow>
          (case validator x (world env) of
             (Some e, w) \<Rightarrow> Inl e
           | (None, w) \<Rightarrow> Inr (env\<lparr>world := w\<rparr>)))"

definition runSync ::
  "(nat \<Rightarrow> int) \<Rightarrow> ('f, 'w) RunInput \<Rightarrow> 'w Env \<Rightarrow> exn + (RunResult \<times> 'w Env)" where
  "runSync now inp env =
     (case validate (validateFactsFn inp) (facts inp) env of
        Inl e \<Rightarrow> Inl e
      | Inr env0 \<Rightarrow>
          (let (content0, w) = defaultEffectsFactory inp (world env0);
               effects0 = \<lparr>ident = allocated env0, content = content0\<rparr>;
               env1 = env0\<lparr>world := w, allocated := Suc (allocated env0)\<rparr>
           in case validate (validateEffectsFn inp) (content effects0) env1 of
                Inl e \<Rightarrow> Inl e
              | Inr env2 \<Rightarrow>
                  (case runRules now inp (rules inp)
                          (\<lparr>effects = effects0, fired = [], trace = []\<rparr>, env2) of
                     Inl e \<Rightarrow> Inl e
                   | Inr (res, env3) \<Rightarrow>
                       (case validate (validateEffectsFn inp) (content (effects res)) env3 of
                          Inl e \<Rightarrow> Inl e
                        | Inr env4 \<Rightarrow> Inr (res, env4)))))"

text \<open>
  \<^verbatim>\<open>engine.run(input)\<close>: \<^verbatim>\<open>runSync\<close> on the input, the rules and the factory the
  closure holds, and the validators the builder has when the run starts.
\<close>

definition run ::
  "(nat \<Rightarrow> int) \<Rightarrow> ('f, 'w) Engine \<Rightarrow> 'f RunOptions \<Rightarrow> 'w Env \<Rightarrow> exn + (RunResult \<times> 'w Env)" where
  "run now engine input env =
     runSync now
       (RunOptions.extend input
          \<lparr>rules = sortedRules engine, defaultEffectsFactory = engineFactory engine,
           validateFactsFn = this_validateFactsFn (engineThis engine),
           validateEffectsFn = this_validateEffectsFn (engineThis engine)\<rparr>)
       env"

section \<open>Comparing runs\<close>








section \<open>Example rulesets\<close>

text \<open>
  Conditions, actions and rulesets in the manner of the repository's tests and README, on
  which the properties below are evaluated. \<^verbatim>\<open>Rules.condition("always", () => true)\<close> and
  \<^verbatim>\<open>Rules.condition("first", () => false)\<close>:
\<close>

definition always :: "('f, 'w) Condition" where
  "always = condition ''always'' (\<lambda>f w. (True, w)) NoOptions"

definition never :: "('f, 'w) Condition" where
  "never = condition ''first'' (\<lambda>f w. (False, w)) NoOptions"

text \<open>
  \<^verbatim>\<open>gt-zero\<close> and \<^verbatim>\<open>lt-ten\<close> of the operator tests, on a number as the facts.
\<close>

definition gtZero :: "(int, 'w) Condition" where
  "gtZero = condition ''gt-zero'' (\<lambda>f w. (0 < f, w))
              (DetailsFn (\<lambda>f w. (\<lparr>detailsLeft = JNum f, detailsOp = Some ''>'', detailsRight = JNum 0\<rparr>, w)))"

definition ltTen :: "(int, 'w) Condition" where
  "ltTen = condition ''lt-ten'' (\<lambda>f w. (f < 10, w))
              (DetailsFn (\<lambda>f w. (\<lparr>detailsLeft = JNum f, detailsOp = Some ''<'', detailsRight = JNum 10\<rparr>, w)))"

text \<open>
  Actions. \<^verbatim>\<open>({ effects }) => { effects[key].push(item); }\<close>;
  \<^verbatim>\<open>() => patch\<close>;
  \<^verbatim>\<open>({ effects }) => { effects[key].push(item); throw new Error(msg); }\<close>;
  \<^verbatim>\<open>async ({ effects }) => { effects[key].push(item); }\<close>, whose body runs to its
  end before the Promise is returned.
\<close>

definition arrayPush :: "string \<Rightarrow> jsval \<Rightarrow> props \<Rightarrow> props" where
  "arrayPush key item eff =
     (case getOwn eff key of JArr vs \<Rightarrow> setOwn eff key (JArr (vs @ [item])) | _ \<Rightarrow> eff)"

definition pushes :: "string \<Rightarrow> string \<Rightarrow> ('f, 'w) Action" where
  "pushes key item =
     (\<lambda>f eff w. (\<lparr>effectsAfter = arrayPush key (JStr item) eff, notesAdded = [],
                    completion = Returns (Value JUndefined)\<rparr>, w))"

definition returnsPatch :: "jsval \<Rightarrow> ('f, 'w) Action" where
  "returnsPatch patch =
     (\<lambda>f eff w. (\<lparr>effectsAfter = eff, notesAdded = [], completion = Returns (Value patch)\<rparr>, w))"

definition pushesThenThrows :: "string \<Rightarrow> string \<Rightarrow> string \<Rightarrow> ('f, 'w) Action" where
  "pushesThenThrows key item msg =
     (\<lambda>f eff w. (\<lparr>effectsAfter = arrayPush key (JStr item) eff, notesAdded = [],
                    completion = Throws (Error msg)\<rparr>, w))"

definition pushesAsync :: "string \<Rightarrow> string \<Rightarrow> ('f, 'w) Action" where
  "pushesAsync key item =
     (\<lambda>f eff w. (\<lparr>effectsAfter = arrayPush key (JStr item) eff, notesAdded = [],
                    completion = Returns Promise\<rparr>, w))"

text \<open>
  \<open>declared rb b\<close> is the ruleset after \<^verbatim>\<open>rb.end()\<close> (unchanged when \<^verbatim>\<open>end()\<close>
  throws), \<open>compiled b\<close> the engine \<^verbatim>\<open>b.compile()\<close> returns (one without rules when
  \<^verbatim>\<open>compile()\<close> throws).
\<close>

definition declared :: "('f, 'w) RuleBuilder \<Rightarrow> ('f, 'w) RulesetBuilder \<Rightarrow> ('f, 'w) RulesetBuilder" where
  "declared rb b = (case rule_end rb b of Inr b' \<Rightarrow> b' | Inl e \<Rightarrow> b)"

definition compiled :: "('f, 'w) RulesetBuilder \<Rightarrow> ('f, 'w) Engine" where
  "compiled b =
     (case compile b of Inr e \<Rightarrow> e
      | Inl err \<Rightarrow> \<lparr>sortedRules = [], engineFactory = freshEffects [], engineThis = b\<rparr>)"


definition rollbackRuleset :: "(jsval, unit) RulesetBuilder" where
  "rollbackRuleset =
     declared (rule_then (pushes ''fired'' ''second'') (rule_when [always] (rule ''second'')))
       (declared (rule_then (pushesThenThrows ''fired'' ''first'' ''boom'') (rule_when [always] (rule ''first'')))
          (defaultEffects (freshEffects [(''fired'', JArr [])]) (ruleset (Some ''rollback''))))"

definition asyncRuleset :: "(jsval, unit) RulesetBuilder" where
  "asyncRuleset =
     declared (rule_then (pushesAsync ''fired'' ''first'') (rule_when [always] (rule ''first'')))
       (defaultEffects (freshEffects [(''fired'', JArr [])]) (ruleset (Some ''async-sync'')))"

definition unconditionalThrows :: "(jsval, unit) RulesetBuilder" where
  "unconditionalThrows =
     declared (rule_then (pushesThenThrows ''fired'' ''first'' ''boom'') (rule ''first''))
       (defaultEffects (freshEffects [(''fired'', JArr [])]) (ruleset (Some ''no-conditions'')))"

definition immutableRuleset :: "(jsval, unit) RulesetBuilder" where
  "immutableRuleset =
     declared (rule_then (returnsPatch (JObj [(''stats'', JObj [(''count'', JNum 2)])]))
                 (rule_when [always] (rule ''increment'')))
       (defaultEffects (freshEffects [(''stats'', JObj [(''count'', JNum 0)]), (''fired'', JArr [])])
          (ruleset (Some ''immutable'')))"

text \<open>
  Single rules as \<^verbatim>\<open>end()\<close> builds them, and a run input over given rules without
  validators.
\<close>

definition throwingRule :: "(jsval, unit) Rule" where
  "throwingRule =
     \<lparr>rule_id = ''first'', priority = 0, order = 0, conditions = [always],
      action = pushesThenThrows ''fired'' ''first'' ''boom'', meta = None\<rparr>"

definition pushingRule :: "(jsval, unit) Rule" where
  "pushingRule =
     \<lparr>rule_id = ''second'', priority = 0, order = 1, conditions = [always],
      action = pushes ''fired'' ''second'', meta = None\<rparr>"

definition asyncRule :: "(jsval, unit) Rule" where
  "asyncRule =
     \<lparr>rule_id = ''first'', priority = 0, order = 0, conditions = [always],
      action = pushesAsync ''fired'' ''first'', meta = None\<rparr>"

definition unconditionalRule :: "(jsval, unit) Rule" where
  "unconditionalRule =
     \<lparr>rule_id = ''noop'', priority = 0, order = 0, conditions = [],
      action = returnsPatch JUndefined, meta = None\<rparr>"

definition shortCircuitRule :: "(jsval, nat list \<times> unit) Rule" where
  "shortCircuitRule =
     \<lparr>rule_id = ''rule'', priority = 0, order = 0, conditions = probes [never, always],
      action = pushes ''fired'' ''rule'', meta = None\<rparr>"

definition inputOf ::
  "'f RunOptions \<Rightarrow> ('f, 'w) Rule list \<Rightarrow> 'w DefaultEffectsFactory \<Rightarrow> ('f, 'w) RunInput" where
  "inputOf input rs factory =
     RunOptions.extend input
       \<lparr>rules = rs, defaultEffectsFactory = factory, validateFactsFn = None, validateEffectsFn = None\<rparr>"

text \<open>
  Starting points: the effects \<^verbatim>\<open>{ fired: [] }\<close>; the loop's variables before the
  first rule, with that effects object as object 0; the process before anything was
  allocated and after object 0 was; a clock that advances by one at each reading, and one
  that stands at 0 for three readings and then at 5.
\<close>

definition firedEffects :: props where
  "firedEffects = [(''fired'', JArr [])]"

definition startResult :: RunResult where
  "startResult = \<lparr>effects = \<lparr>ident = 0, content = firedEffects\<rparr>, fired = [], trace = []\<rparr>"

definition startEnv :: "unit Env" where
  "startEnv = \<lparr>world = (), allocated = 0, clockReads = 0\<rparr>"

definition loopEnv :: "unit Env" where
  "loopEnv = \<lparr>world = (), allocated = 1, clockReads = 0\<rparr>"

definition tick :: "nat \<Rightarrow> int" where
  "tick n = int n"


section \<open>Evaluation rules\<close>

text \<open>
  The definitions unfolded to evaluate the API calls, a run, and the examples.
\<close>

lemmas builder_defs =
  ruleset_def defaultEffects_def validateFacts_def validateEffects_def rule_def rule_priority_def
  rule_when_def rule_tags_def rule_enabled_def rule_then_def rule_end_def declared_def
  compile_def compiled_def sortBy_def compareRules_def

lemmas run_defs =
  run_def runSync_def runRule_def runAction_def validate_def dateNow_def cloneEffects_def
  getSkipReason_def mergeEffects_def runOptions_def RunOptions.defs
  always_def never_def condition_def pushes_def pushesThenThrows_def pushesAsync_def
  returnsPatch_def arrayPush_def freshEffects_def startEnv_def tick_def

lemmas example_defs =
  inputOf_def firedEffects_def startResult_def shortCircuitRule_def throwingRule_def
  pushingRule_def asyncRule_def unconditionalRule_def loopEnv_def


section \<open>Properties of the merge\<close>

lemma plainObject_iff: "plainObject v = (\<exists>ps. v = JObj ps)"
  by (cases v) (auto simp: plainObject_def)











section \<open>Properties of field paths\<close>









section \<open>Properties of conditions\<close>

lemma splitArgs_withLabel: "splitArgs d (withLabel lo cs) = (resolveLabel d lo, cs)"
  by (cases lo) (auto simp: withLabel_def)

lemma probe_apply: "probe i c f (calls, w) = (fst (c f w), (calls @ [i], snd (c f w)))"
  by (simp add: probe_def split_beta)

lemma mapConditions_Cons:
  "mapConditions (c # cs) f w =
     (fst (c f w) # fst (mapConditions cs f (snd (c f w))),
      snd (mapConditions cs f (snd (c f w))))"
  by (simp add: split_beta)

lemma mapConditions_probes_at:
  "length ixs = length cs \<Longrightarrow>
   mapConditions (map (\<lambda>(i, c). probe i c) (zip ixs cs)) f (calls, w) =
     (fst (mapConditions cs f w), (calls @ ixs, snd (mapConditions cs f w)))"
proof (induction cs arbitrary: ixs calls w)
  case Nil
  then show ?case by simp
next
  case (Cons c cs)
  then obtain i rest where ixs: "ixs = i # rest" and len: "length rest = length cs"
    by (cases ixs) auto
  show ?case
    unfolding ixs
    by (simp add: mapConditions_Cons probe_apply Cons.IH [OF len] del: mapConditions.simps(2))
qed

lemma mapConditions_probes:
  "mapConditions (probes cs) f (calls, w) =
     (fst (mapConditions cs f w), (calls @ [0..<length cs], snd (mapConditions cs f w)))"
  by (simp add: probes_def mapConditions_probes_at)

lemma length_mapConditions: "length (fst (mapConditions cs f w)) = length cs"
  by (induction cs arbitrary: w) (simp_all add: mapConditions_Cons del: mapConditions.simps(2))

text \<open>
  Claim C5. For every list of child conditions, every label and every facts value,
  \<^verbatim>\<open>op.and\<close> and \<^verbatim>\<open>op.or\<close> call every child exactly once, in order, whatever the
  results (the log of the counting stubs grows by the positions \<open>0, ..., n - 1\<close>); the
  composite trace has all child traces in \<^verbatim>\<open>children\<close> and their labels in
  \<^verbatim>\<open>left\<close>, and its result is the conjunction, respectively the disjunction, of the
  child results. Without children \<^verbatim>\<open>and\<close> gives true and \<^verbatim>\<open>or\<close> gives false.
\<close>

theorem and_or_evaluate_every_child:
  "(let (t, calls', w') = op_and (withLabel lo (probes cs)) f (calls, w);
        (kids, w1) = mapConditions cs f w
    in calls' = calls @ [0..<length cs] \<and> w' = w1 \<and> length kids = length cs
       \<and> children t = Some kids \<and> left t = JArr (map (\<lambda>child. JStr (label child)) kids)
       \<and> result t = list_all result kids)
   \<and> (let (t, calls', w') = op_or (withLabel lo (probes cs)) f (calls, w);
           (kids, w1) = mapConditions cs f w
       in calls' = calls @ [0..<length cs] \<and> w' = w1 \<and> length kids = length cs
          \<and> children t = Some kids \<and> left t = JArr (map (\<lambda>child. JStr (label child)) kids)
          \<and> result t = list_ex result kids)
   \<and> result (fst (op_and (withLabel lo []) f w)) = True
   \<and> result (fst (op_or (withLabel lo []) f w)) = False"
  using length_mapConditions [of cs f w]
  by (simp add: op_and_def op_or_def splitArgs_withLabel mapConditions_probes split_beta)

text \<open>
  Instances on the facts 20: \<^verbatim>\<open>and\<close> calls \<^verbatim>\<open>gt-zero\<close> although \<^verbatim>\<open>lt-ten\<close>
  has failed, \<^verbatim>\<open>or\<close> calls \<^verbatim>\<open>lt-ten\<close> although \<^verbatim>\<open>gt-zero\<close> has held.
\<close>

theorem and_or_evaluate_every_child_witness:
  "op_and (withLabel (Some (LabelString ''range-check'')) (probes [ltTen, gtZero])) 20 ([], ())
     = (ConditionTrace ''range-check'' False (JArr [JStr ''lt-ten'', JStr ''gt-zero'']) (Some ''and'') JUndefined
          (Some [ConditionTrace ''lt-ten'' False (JNum 20) (Some ''<'') (JNum 10) None None,
                 ConditionTrace ''gt-zero'' True (JNum 20) (Some ''>'') (JNum 0) None None]) None,
        ([0, 1], ()))
   \<and> op_or (withLabel None (probes [gtZero, ltTen])) 20 ([], ())
     = (ConditionTrace ''or'' True (JArr [JStr ''gt-zero'', JStr ''lt-ten'']) (Some ''or'') JUndefined
          (Some [ConditionTrace ''gt-zero'' True (JNum 20) (Some ''>'') (JNum 0) None None,
                 ConditionTrace ''lt-ten'' False (JNum 20) (Some ''<'') (JNum 10) None None]) None,
        ([0, 1], ()))"
  using and_or_evaluate_every_child [of "Some (LabelString ''range-check'')" "[ltTen, gtZero]" 20 "[]" "()"]
    and_or_evaluate_every_child [of None "[gtZero, ltTen]" 20 "[]" "()"]
  by (simp add: op_and_def op_or_def withLabel_def probes_def probe_def gtZero_def ltTen_def condition_def)

lemma evalConditions_Cons:
  "evalConditions (c # cs) f w =
     (if \<not> result (fst (c f w)) then (False, [fst (c f w)], snd (c f w))
      else (fst (evalConditions cs f (snd (c f w))),
            fst (c f w) # fst (snd (evalConditions cs f (snd (c f w)))),
            snd (snd (evalConditions cs f (snd (c f w))))))"
  by (simp add: split_beta)

lemma evalConditions_probes_at:
  "length ixs = length cs \<Longrightarrow> k < length cs \<Longrightarrow>
   map result (fst (mapConditions (take (Suc k) cs) f w)) = replicate k True @ [False] \<Longrightarrow>
   evalConditions (map (\<lambda>(i, c). probe i c) (zip ixs cs)) f (calls, w) =
     (False, fst (mapConditions (take (Suc k) cs) f w),
      (calls @ take (Suc k) ixs, snd (mapConditions (take (Suc k) cs) f w)))"
proof (induction cs arbitrary: ixs k calls w)
  case Nil
  then show ?case by simp
next
  case (Cons c cs)
  from Cons.prems(1) obtain i rest where ixs: "ixs = i # rest" and len: "length rest = length cs"
    by (cases ixs) auto
  show ?case
  proof (cases k)
    case 0
    with Cons.prems(3) have "\<not> result (fst (c f w))"
      by (simp add: mapConditions_Cons del: mapConditions.simps(2))
    then show ?thesis
      unfolding ixs 0
      by (simp add: evalConditions_Cons mapConditions_Cons probe_apply
            del: mapConditions.simps(2) evalConditions.simps(2))
  next
    case (Suc k')
    with Cons.prems(2) have k': "k' < length cs" by simp
    from Cons.prems(3) Suc have hd: "result (fst (c f w))"
      and tl: "map result (fst (mapConditions (take (Suc k') cs) f (snd (c f w)))) =
               replicate k' True @ [False]"
      by (simp_all add: mapConditions_Cons del: mapConditions.simps(2))
    show ?thesis
      unfolding ixs Suc
      using hd
      by (simp add: evalConditions_Cons mapConditions_Cons probe_apply
            Cons.IH [OF len k' tl]
            del: mapConditions.simps(2) evalConditions.simps(2))
  qed
qed

lemma evalConditions_probes:
  assumes "k < length cs"
    and "map result (fst (mapConditions (take (Suc k) cs) f w)) = replicate k True @ [False]"
  shows "evalConditions (probes cs) f (calls, w) =
     (False, fst (mapConditions (take (Suc k) cs) f w),
      (calls @ [0..<Suc k], snd (mapConditions (take (Suc k) cs) f w)))"
proof -
  have "take (Suc k) [0..<length cs] = [0..<Suc k]"
    using assms(1) by (simp add: take_upt del: upt_Suc)
  then show ?thesis
    using evalConditions_probes_at [of "[0..<length cs]" cs k f w calls] assms
    by (simp add: probes_def del: upt_Suc)
qed

text \<open>
  Claim C4. For every rule that is not skipped and whose conditions, called in order, first
  give false at position \<open>k\<close>: the loop body calls the conditions \<open>0, ..., k\<close> once each
  and no other (the log of the counting stubs grows by exactly these positions), marks the
  rule \<^verbatim>\<open>matched = false\<close>, and pushes one rule trace whose conditions are exactly the
  traces of the conditions \<open>0, ..., k\<close>; the action is not called, effects and
  \<^verbatim>\<open>fired\<close> are unchanged and the loop continues.
\<close>

theorem conditions_short_circuit:
  assumes "getSkipReason (meta r) (includeTags inp) (excludeTags inp) = None"
    and "conditions r = probes cs"
    and "k < length cs"
    and "map result (fst (mapConditions (take (Suc k) cs) (facts inp) w)) = replicate k True @ [False]"
    and "world env = (calls, w)"
  shows "runRule now inp r (res, env) =
     Inr ((res\<lparr>trace := trace res @
              [\<lparr>ruleId = rule_id r, matched = False,
                traceConditions = fst (mapConditions (take (Suc k) cs) (facts inp) w),
                traceNotes = [], durationMs = Some (now (Suc (clockReads env)) - now (clockReads env)),
                error = None, traceMeta = meta r, skippedReason = None\<rparr>]\<rparr>,
           env\<lparr>world := (calls @ [0..<Suc k], snd (mapConditions (take (Suc k) cs) (facts inp) w)),
               clockReads := Suc (Suc (clockReads env))\<rparr>),
          False)"
  using assms(1,2,5) evalConditions_probes [OF assms(3,4), of calls]
  by (simp add: runRule_def dateNow_def del: upt_Suc)

text \<open>
  An instance, the test "short-circuits on the first failed condition": the second
  condition is never called.
\<close>

theorem conditions_short_circuit_witness:
  "runRule tick (inputOf (runOptions JNull) [shortCircuitRule] (freshEffects firedEffects))
     shortCircuitRule (startResult, \<lparr>world = ([], ()), allocated = 1, clockReads = 0\<rparr>)
   = Inr ((startResult\<lparr>trace :=
              [\<lparr>ruleId = ''rule'', matched = False,
                traceConditions = [ConditionTrace ''first'' False JUndefined None JUndefined None None],
                traceNotes = [], durationMs = Some 1, error = None, traceMeta = None,
                skippedReason = None\<rparr>]\<rparr>,
           \<lparr>world = ([0], ()), allocated = 1, clockReads = 2\<rparr>), False)"
proof -
  let ?inp = "inputOf (runOptions JNull) [shortCircuitRule] (freshEffects firedEffects)
                :: (jsval, nat list \<times> unit) RunInput"
  let ?env = "\<lparr>world = ([] :: nat list, ()), allocated = 1, clockReads = 0\<rparr>"
  have h1: "getSkipReason (meta shortCircuitRule) (includeTags ?inp) (excludeTags ?inp) = None"
    by (simp add: example_defs run_defs)
  have h2: "conditions shortCircuitRule = probes [never, always]"
    by (simp add: example_defs)
  have h3: "(0 :: nat) < length [never :: (jsval, unit) Condition, always]" by simp
  have h4: "map result (fst (mapConditions (take (Suc 0) [never, always]) (facts ?inp) ()))
              = replicate 0 True @ [False]"
    by (simp add: example_defs run_defs)
  have h5: "world ?env = ([], ())" by simp
  show ?thesis
    using conditions_short_circuit [OF h1 h2 h3 h4 h5, of tick startResult]
    by (simp add: example_defs run_defs)
qed

section \<open>Properties of compilation\<close>

text \<open>
  Claim C9, as amended. For every ruleset builder on which no default-effects factory was
  registered, \<^verbatim>\<open>compile()\<close> fails with an error, never a silent default, and the
  message is exactly \<^verbatim>\<open>defaultEffects() is required before compile().\<close>, ending in a
  full stop.
\<close>

theorem compile_requires_defaultEffects:
  "this_defaultEffectsFactory b = None \<Longrightarrow>
   compile b = Inl (Error ''defaultEffects() is required before compile().'')"
  by (simp add: compile_def)

text \<open>
  An instance, the test "throws when compile is called without defaultEffects".
\<close>

theorem compile_requires_defaultEffects_witness:
  "this_defaultEffectsFactory (ruleset (Some ''missing-defaults'') :: (jsval, unit) RulesetBuilder) = None
   \<and> compile (ruleset (Some ''missing-defaults'') :: (jsval, unit) RulesetBuilder)
       = Inl (Error ''defaultEffects() is required before compile().'')"
  using compile_requires_defaultEffects [of "ruleset (Some ''missing-defaults'') :: (jsval, unit) RulesetBuilder"]
  by (simp add: ruleset_def)

text \<open>
  The message is not the text without the full stop.
\<close>

theorem compile_message_counterexample:
  "compile (ruleset (Some ''missing-defaults'') :: (jsval, unit) RulesetBuilder)
     \<noteq> Inl (Error ''defaultEffects() is required before compile()'')"
  by (simp add: ruleset_def compile_def)




















section \<open>Properties of the run loop\<close>

lemma runAction_fails:
  assumes "action r (facts inp) (content e0) (world env) = (outcome, w2)"
    and "completion outcome = Throws e
         \<or> (completion outcome = Returns Promise
            \<and> e = Error ''Async rule action detected. Use runAsync().'')"
  shows "runAction inp r e0 rt env =
     (if \<not> rollbackOnError inp then Inl e
      else Inr (if effectsMode inp = Immutable then e0 else e0\<lparr>content := effectsAfter outcome\<rparr>,
                rt\<lparr>error := Some (errorString e),
                   traceNotes := traceNotes rt @ notesAdded outcome @ [''error: '' @ errorString e]\<rparr>,
                env\<lparr>world := w2,
                    allocated := (if effectsMode inp = Immutable then Suc (allocated env)
                                  else allocated env)\<rparr>))"
  using assms by (auto simp: runAction_def cloneEffects_def Let_def)

lemma runRule_action_fails:
  assumes "getSkipReason (meta r) (includeTags inp) (excludeTags inp) = None"
    and "evalConditions (conditions r) (facts inp) (world env) = (True, cts, w1)"
    and "action r (facts inp) (content (effects res)) w1 = (outcome, w2)"
    and "completion outcome = Throws e
         \<or> (completion outcome = Returns Promise
            \<and> e = Error ''Async rule action detected. Use runAsync().'')"
  shows "runRule now inp r (res, env) =
     (if \<not> rollbackOnError inp then Inl e
      else Inr ((\<lparr>effects = (if effectsMode inp = Immutable then effects res
                             else (effects res)\<lparr>content := effectsAfter outcome\<rparr>),
                 fired = fired res @ [rule_id r],
                 trace = trace res @
                   [\<lparr>ruleId = rule_id r, matched = True, traceConditions = cts,
                     traceNotes = notesAdded outcome @ [''error: '' @ errorString e],
                     durationMs = Some (now (Suc (clockReads env)) - now (clockReads env)),
                     error = Some (errorString e), traceMeta = meta r, skippedReason = None\<rparr>]\<rparr>,
                env\<lparr>world := w2,
                    allocated := (if effectsMode inp = Immutable then Suc (allocated env)
                                  else allocated env),
                    clockReads := Suc (Suc (clockReads env))\<rparr>),
               activation inp = ActivationFirst))"
proof -
  let ?env2 = "env\<lparr>clockReads := Suc (clockReads env), world := w1\<rparr>"
  have a: "action r (facts inp) (content (effects res)) (world ?env2) = (outcome, w2)"
    using assms(3) by simp
  show ?thesis
    using assms(1,2)
    by (simp add: runRule_def dateNow_def runAction_fails [OF a assms(4)])
qed

lemma runAction_returns:
  assumes "action r (facts inp) (content e0) (world env) = (outcome, w2)"
    and "completion outcome = Returns (Value v)"
  shows "runAction inp r e0 rt env =
     Inr ((if effectsMode inp = Immutable then \<lparr>ident = allocated env, content = content e0\<rparr> else e0)
            \<lparr>content := (if truthy v \<and> typeof v = ''object''
                         then mergeEffects (effectsAfter outcome) v (mergeStrategy inp)
                         else effectsAfter outcome)\<rparr>,
          rt\<lparr>traceNotes := traceNotes rt @ notesAdded outcome\<rparr>,
          env\<lparr>world := w2,
              allocated := (if effectsMode inp = Immutable then Suc (allocated env)
                            else allocated env)\<rparr>)"
  using assms by (auto simp: runAction_def cloneEffects_def Let_def)


text \<open>
  Claim C1, as amended. In a run with \<^verbatim>\<open>rollbackOnError = true\<close>, when the action of a
  matched rule throws, the error is not propagated: it is recorded in the rule's trace
  (\<^verbatim>\<open>error\<close>, and a note appended after the action's own notes), the rule's id is
  appended to \<^verbatim>\<open>fired\<close>, and the loop goes on with the next rule, unless activation
  is "first", which ends the run after this matched rule. Under \<^verbatim>\<open>effectsMode\<close>
  "immutable" the run's effects are exactly the object they were before the action ran,
  with the same content.
\<close>

theorem rollback_on_action_throw:
  assumes "rollbackOnError inp"
    and "getSkipReason (meta r) (includeTags inp) (excludeTags inp) = None"
    and "evalConditions (conditions r) (facts inp) (world env) = (True, cts, w1)"
    and "action r (facts inp) (content (effects res)) w1 = (outcome, w2)"
    and "completion outcome = Throws e"
  shows "\<exists>res1 env1 t.
           runRules now inp (r # rs) (res, env) =
             (if activation inp = ActivationFirst then Inr (res1, env1)
              else runRules now inp rs (res1, env1))
           \<and> fired res1 = fired res @ [rule_id r]
           \<and> trace res1 = trace res @ [t]
           \<and> ruleId t = rule_id r \<and> matched t \<and> traceConditions t = cts
           \<and> error t = Some (errorString e)
           \<and> traceNotes t = notesAdded outcome @ [''error: '' @ errorString e]
           \<and> (effectsMode inp = Immutable \<longrightarrow> effects res1 = effects res)
           \<and> world env1 = w2"
proof -
  let ?t = "\<lparr>ruleId = rule_id r, matched = True, traceConditions = cts,
             traceNotes = notesAdded outcome @ [''error: '' @ errorString e],
             durationMs = Some (now (Suc (clockReads env)) - now (clockReads env)),
             error = Some (errorString e), traceMeta = meta r, skippedReason = None\<rparr>"
  let ?res1 = "\<lparr>effects = (if effectsMode inp = Immutable then effects res
                           else (effects res)\<lparr>content := effectsAfter outcome\<rparr>),
                fired = fired res @ [rule_id r], trace = trace res @ [?t]\<rparr>"
  let ?env1 = "env\<lparr>world := w2,
                   allocated := (if effectsMode inp = Immutable then Suc (allocated env)
                                 else allocated env),
                   clockReads := Suc (Suc (clockReads env))\<rparr>"
  have "runRules now inp (r # rs) (res, env) =
          (if activation inp = ActivationFirst then Inr (?res1, ?env1)
           else runRules now inp rs (?res1, ?env1))"
    using assms(1,5) by (simp add: runRule_action_fails [OF assms(2,3,4), of e])
  then show ?thesis
    by (intro exI [of _ ?res1] exI [of _ ?env1] exI [of _ ?t]) simp
qed

text \<open>
  An instance, the specification's scenario under "immutable": the first rule's action
  pushes and throws, the second rule matches; both ids are in \<^verbatim>\<open>fired\<close>, the effects
  hold only the second rule's push, and the first rule's trace has the error.
\<close>

theorem rollback_on_action_throw_witness:
  "runRules tick
     (inputOf ((runOptions JNull)\<lparr>rollbackOnError := True, effectsMode := Immutable\<rparr>)
        [throwingRule, pushingRule] (freshEffects firedEffects))
     [throwingRule, pushingRule] (startResult, loopEnv)
   = Inr (\<lparr>effects = \<lparr>ident = 2, content = [(''fired'', JArr [JStr ''second''])]\<rparr>,
           fired = [''first'', ''second''],
           trace =
             [\<lparr>ruleId = ''first'', matched = True,
               traceConditions = [ConditionTrace ''always'' True JUndefined None JUndefined None None],
               traceNotes = [''error: Error: boom''], durationMs = Some 1,
               error = Some ''Error: boom'', traceMeta = None, skippedReason = None\<rparr>,
              \<lparr>ruleId = ''second'', matched = True,
               traceConditions = [ConditionTrace ''always'' True JUndefined None JUndefined None None],
               traceNotes = [], durationMs = Some 1, error = None, traceMeta = None,
               skippedReason = None\<rparr>]\<rparr>,
          \<lparr>world = (), allocated = 3, clockReads = 4\<rparr>)"
proof -
  let ?inp = "inputOf ((runOptions JNull)\<lparr>rollbackOnError := True, effectsMode := Immutable\<rparr>)
        [throwingRule, pushingRule] (freshEffects firedEffects) :: (jsval, unit) RunInput"
  have h1: "rollbackOnError ?inp" by (simp add: example_defs run_defs)
  have h2: "getSkipReason (meta throwingRule) (includeTags ?inp) (excludeTags ?inp) = None"
    by (simp add: example_defs run_defs)
  have h3: "evalConditions (conditions throwingRule) (facts ?inp) (world loopEnv)
              = (True, [ConditionTrace ''always'' True JUndefined None JUndefined None None], ())"
    by (simp add: example_defs run_defs)
  have h4: "action throwingRule (facts ?inp) (content (effects startResult)) ()
              = (\<lparr>effectsAfter = [(''fired'', JArr [JStr ''first''])], notesAdded = [],
                  completion = Throws (Error ''boom'')\<rparr>, ())"
    by (simp add: example_defs run_defs)
  have h5: "completion \<lparr>effectsAfter = [(''fired'', JArr [JStr ''first''])], notesAdded = [],
                  completion = Throws (Error ''boom'')\<rparr> = Throws (Error ''boom'')"
    by simp
  show ?thesis
    using rollback_on_action_throw [OF h1 h2 h3 h4 h5, of tick "[pushingRule]"]
    by (simp add: example_defs run_defs loopEnv_def)
qed

text \<open>
  The claim as first stated fails under activation "first": the loop ends after the rule
  whose action threw, and the second rule, which would match, is never evaluated. (Here
  under "immutable", where the effects are indeed the ones from before the action.)
\<close>

theorem rollback_counterexample:
  "run tick (compiled rollbackRuleset)
     ((runOptions JNull)\<lparr>rollbackOnError := True, activation := ActivationFirst,
                          effectsMode := Immutable\<rparr>) startEnv
   = Inr (\<lparr>effects = \<lparr>ident = 0, content = [(''fired'', JArr [])]\<rparr>,
           fired = [''first''],
           trace = [\<lparr>ruleId = ''first'', matched = True,
                     traceConditions = [ConditionTrace ''always'' True JUndefined None JUndefined None None],
                     traceNotes = [''error: Error: boom''], durationMs = Some 1,
                     error = Some ''Error: boom'', traceMeta = None, skippedReason = None\<rparr>]\<rparr>,
          \<lparr>world = (), allocated = 2, clockReads = 2\<rparr>)
   \<and> map rule_id (sortedRules (compiled rollbackRuleset)) = [''first'', ''second'']"
  by (simp add: rollbackRuleset_def builder_defs run_defs)

text \<open>
  Under the default \<^verbatim>\<open>effectsMode\<close> "mutable" the \<^verbatim>\<open>catch\<close> block has nothing to
  restore: the action worked on the run's effects object itself, and what it wrote before
  throwing stays. In the specification's scenario the effects then hold the push of the
  first rule as well, where the documentation of \<^verbatim>\<open>rollbackOnError\<close> ("keep previous
  effects when a rule throws") and the "immutable" mode keep it out.
\<close>

lemma rollback_mutable_keeps_writes:
  "run tick (compiled rollbackRuleset) ((runOptions JNull)\<lparr>rollbackOnError := True\<rparr>) startEnv
   = Inr (\<lparr>effects = \<lparr>ident = 0, content = [(''fired'', JArr [JStr ''first'', JStr ''second''])]\<rparr>,
           fired = [''first'', ''second''],
           trace =
             [\<lparr>ruleId = ''first'', matched = True,
               traceConditions = [ConditionTrace ''always'' True JUndefined None JUndefined None None],
               traceNotes = [''error: Error: boom''], durationMs = Some 1,
               error = Some ''Error: boom'', traceMeta = None, skippedReason = None\<rparr>,
              \<lparr>ruleId = ''second'', matched = True,
               traceConditions = [ConditionTrace ''always'' True JUndefined None JUndefined None None],
               traceNotes = [], durationMs = Some 1, error = None, traceMeta = None,
               skippedReason = None\<rparr>]\<rparr>,
          \<lparr>world = (), allocated = 1, clockReads = 4\<rparr>)"
  by (simp add: rollbackRuleset_def builder_defs run_defs)

text \<open>
  Claim C2. A matched rule whose action returns a Promise to the non-suspending run: the
  loop throws the error \<^verbatim>\<open>Async rule action detected. Use runAsync().\<close> when
  \<^verbatim>\<open>rollbackOnError\<close> is false. The \<^verbatim>\<open>throw\<close> stands inside the \<^verbatim>\<open>try\<close> block,
  so with \<^verbatim>\<open>rollbackOnError = true\<close> the \<^verbatim>\<open>catch\<close> handles it like an action's own
  error: nothing is raised, the rule counts as fired, the error is only written to the
  rule's trace, and under "mutable" what the action wrote before returning the Promise is
  in the run's effects.
\<close>

theorem async_action_in_run:
  assumes "getSkipReason (meta r) (includeTags inp) (excludeTags inp) = None"
    and "evalConditions (conditions r) (facts inp) (world env) = (True, cts, w1)"
    and "action r (facts inp) (content (effects res)) w1 = (outcome, w2)"
    and "completion outcome = Returns Promise"
  shows "runRules now inp (r # rs) (res, env) =
     (if \<not> rollbackOnError inp then Inl (Error ''Async rule action detected. Use runAsync().'')
      else
       (let st1 =
        (\<lparr>effects = (if effectsMode inp = Immutable then effects res
                      else (effects res)\<lparr>content := effectsAfter outcome\<rparr>),
          fired = fired res @ [rule_id r],
          trace = trace res @
            [\<lparr>ruleId = rule_id r, matched = True, traceConditions = cts,
              traceNotes = notesAdded outcome @
                 [''error: Error: Async rule action detected. Use runAsync().''],
              durationMs = Some (now (Suc (clockReads env)) - now (clockReads env)),
              error = Some ''Error: Async rule action detected. Use runAsync().'',
              traceMeta = meta r, skippedReason = None\<rparr>]\<rparr>,
         env\<lparr>world := w2,
             allocated := (if effectsMode inp = Immutable then Suc (allocated env)
                           else allocated env),
             clockReads := Suc (Suc (clockReads env))\<rparr>)
      in if activation inp = ActivationFirst then Inr st1 else runRules now inp rs st1))"
  using assms(4)
  by (simp add: runRule_action_fails [OF assms(1,2,3),
        of "Error ''Async rule action detected. Use runAsync().''"] Let_def)

text \<open>
  An instance, the test's asynchronous action: with \<^verbatim>\<open>rollbackOnError = true\<close> the
  loop returns, with the action's push in the effects; without it the loop throws.
\<close>

theorem async_action_in_run_witness:
  "runRules tick
     (inputOf ((runOptions JNull)\<lparr>rollbackOnError := True\<rparr>) [asyncRule] (freshEffects firedEffects))
     [asyncRule] (startResult, loopEnv)
   = Inr (\<lparr>effects = \<lparr>ident = 0, content = [(''fired'', JArr [JStr ''first''])]\<rparr>,
           fired = [''first''],
           trace =
             [\<lparr>ruleId = ''first'', matched = True,
               traceConditions = [ConditionTrace ''always'' True JUndefined None JUndefined None None],
               traceNotes = [''error: Error: Async rule action detected. Use runAsync().''],
               durationMs = Some 1,
               error = Some ''Error: Async rule action detected. Use runAsync().'',
               traceMeta = None, skippedReason = None\<rparr>]\<rparr>,
          \<lparr>world = (), allocated = 1, clockReads = 2\<rparr>)
   \<and> runRules tick
     (inputOf (runOptions JNull) [asyncRule] (freshEffects firedEffects))
     [asyncRule] (startResult, loopEnv)
   = Inl (Error ''Async rule action detected. Use runAsync().'')"
proof -
  let ?inp = "inputOf ((runOptions JNull)\<lparr>rollbackOnError := True\<rparr>) [asyncRule]
                (freshEffects firedEffects) :: (jsval, unit) RunInput"
  let ?inp' = "inputOf (runOptions JNull) [asyncRule]
                (freshEffects firedEffects) :: (jsval, unit) RunInput"
  let ?out = "\<lparr>effectsAfter = [(''fired'', JArr [JStr ''first''])], notesAdded = [],
                  completion = Returns Promise\<rparr>"
  have h1: "getSkipReason (meta asyncRule) (includeTags ?inp) (excludeTags ?inp) = None"
    by (simp add: example_defs run_defs)
  have h2: "evalConditions (conditions asyncRule) (facts ?inp) (world loopEnv)
              = (True, [ConditionTrace ''always'' True JUndefined None JUndefined None None], ())"
    by (simp add: example_defs run_defs)
  have h3: "action asyncRule (facts ?inp) (content (effects startResult)) () = (?out, ())"
    by (simp add: example_defs run_defs)
  have h4: "completion ?out = Returns Promise" by simp
  have h1': "getSkipReason (meta asyncRule) (includeTags ?inp') (excludeTags ?inp') = None"
    by (simp add: example_defs run_defs)
  have h2': "evalConditions (conditions asyncRule) (facts ?inp') (world loopEnv)
              = (True, [ConditionTrace ''always'' True JUndefined None JUndefined None None], ())"
    by (simp add: example_defs run_defs)
  have h3': "action asyncRule (facts ?inp') (content (effects startResult)) () = (?out, ())"
    by (simp add: example_defs run_defs)
  show ?thesis
    using async_action_in_run [OF h1 h2 h3 h4, of tick "[]"]
      async_action_in_run [OF h1' h2' h3' h4, of tick "[]"]
    by (simp add: example_defs run_defs loopEnv_def)
qed

text \<open>
  The same through \<^verbatim>\<open>compile()\<close> and \<^verbatim>\<open>engine.run\<close>.
\<close>

lemma async_run_swallowed:
  "run tick (compiled asyncRuleset) ((runOptions JNull)\<lparr>rollbackOnError := True\<rparr>) startEnv
   = Inr (\<lparr>effects = \<lparr>ident = 0, content = [(''fired'', JArr [JStr ''first''])]\<rparr>,
           fired = [''first''],
           trace =
             [\<lparr>ruleId = ''first'', matched = True,
               traceConditions = [ConditionTrace ''always'' True JUndefined None JUndefined None None],
               traceNotes = [''error: Error: Async rule action detected. Use runAsync().''],
               durationMs = Some 1,
               error = Some ''Error: Async rule action detected. Use runAsync().'',
               traceMeta = None, skippedReason = None\<rparr>]\<rparr>,
          \<lparr>world = (), allocated = 1, clockReads = 2\<rparr>)"
  by (simp add: asyncRuleset_def builder_defs run_defs)

text \<open>
  Claim C10, as amended. For every rule that is not skipped and has no conditions, the
  loop body calls no condition, treats the rule as matched and calls its action. When the
  action returns a value, or \<^verbatim>\<open>rollbackOnError\<close> is true, it appends the rule's id to
  \<^verbatim>\<open>fired\<close> and pushes a rule trace with \<^verbatim>\<open>matched = true\<close>. When the action
  throws or returns a Promise and \<^verbatim>\<open>rollbackOnError\<close> is false, the body throws that
  error and the run ends without a result.
\<close>

theorem rule_without_conditions:
  assumes "getSkipReason (meta r) (includeTags inp) (excludeTags inp) = None"
    and "conditions r = []"
    and "action r (facts inp) (content (effects res)) (world env) = (outcome, w1)"
  shows "(rollbackOnError inp \<or> (\<exists>v. completion outcome = Returns (Value v)) \<longrightarrow>
            (\<exists>res' env' t. runRule now inp r (res, env) = Inr ((res', env'), activation inp = ActivationFirst)
               \<and> fired res' = fired res @ [rule_id r]
               \<and> trace res' = trace res @ [t] \<and> ruleId t = rule_id r \<and> matched t
               \<and> traceConditions t = [] \<and> skippedReason t = None
               \<and> world env' = w1))
         \<and> (\<not> rollbackOnError inp \<longrightarrow>
              (\<forall>e. completion outcome = Throws e \<longrightarrow> runRule now inp r (res, env) = Inl e)
              \<and> (completion outcome = Returns Promise \<longrightarrow>
                   runRule now inp r (res, env)
                     = Inl (Error ''Async rule action detected. Use runAsync().'')))"
proof -
  have ev: "evalConditions (conditions r) (facts inp) (world env) = (True, [], world env)"
    using assms(2) by simp
  have act: "action r (facts inp) (content (effects res)) (world env) = (outcome, w1)"
    by (rule assms(3))
  show ?thesis
  proof (cases "completion outcome")
    case (Throws e)
    then show ?thesis
      by (simp add: runRule_action_fails [OF assms(1) ev act, of e])
  next
    case (Returns ret)
    show ?thesis
    proof (cases ret)
      case Promise
      with Returns show ?thesis
        by (simp add: runRule_action_fails [OF assms(1) ev act,
              of "Error ''Async rule action detected. Use runAsync().''"])
    next
      case (Value v)
      let ?env2 = "env\<lparr>clockReads := Suc (clockReads env)\<rparr>"
      have a: "action r (facts inp) (content (effects res)) (world ?env2) = (outcome, w1)"
        using act by simp
      have c: "completion outcome = Returns (Value v)" using Returns Value by simp
      show ?thesis
        using assms(1,2) c
        by (simp add: runRule_def dateNow_def runAction_returns [OF a c])
    qed
  qed
qed

text \<open>
  An instance: a rule without \<^verbatim>\<open>when()\<close> whose action returns nothing fires.
\<close>

theorem rule_without_conditions_witness:
  "\<exists>res' env' t.
     runRule tick (inputOf (runOptions JNull) [unconditionalRule] (freshEffects firedEffects))
       unconditionalRule (startResult, loopEnv) = Inr ((res', env'), False)
     \<and> fired res' = [''noop''] \<and> trace res' = [t] \<and> ruleId t = ''noop'' \<and> matched t
     \<and> traceConditions t = [] \<and> skippedReason t = None \<and> world env' = ()"
proof -
  let ?inp = "inputOf (runOptions JNull) [unconditionalRule] (freshEffects firedEffects)
                :: (jsval, unit) RunInput"
  let ?out = "\<lparr>effectsAfter = firedEffects, notesAdded = [], completion = Returns (Value JUndefined)\<rparr>"
  have h1: "getSkipReason (meta unconditionalRule) (includeTags ?inp) (excludeTags ?inp) = None"
    by (simp add: example_defs run_defs)
  have h2: "conditions unconditionalRule = []" by (simp add: example_defs)
  have h3: "action unconditionalRule (facts ?inp) (content (effects startResult)) (world loopEnv)
              = (?out, ())"
    by (simp add: example_defs run_defs)
  show ?thesis
    using rule_without_conditions [OF h1 h2 h3, of tick]
    by (simp add: example_defs run_defs)
qed

text \<open>
  The claim as first stated fails when the action throws under the default
  \<^verbatim>\<open>rollbackOnError = false\<close>: the run throws, and no \<^verbatim>\<open>fired\<close> list holds the
  rule's id.
\<close>

theorem rule_without_conditions_counterexample:
  "conditions (sortedRules (compiled unconditionalThrows) ! 0) = []
   \<and> run tick (compiled unconditionalThrows) (runOptions JNull) startEnv = Inl (Error ''boom'')"
  by (simp add: unconditionalThrows_def builder_defs run_defs)

section \<open>Two runs of one engine\<close>


















text \<open>
  The validators are those the builder has when the run starts: one registered after
  \<^verbatim>\<open>compile()\<close> is called by the next run of the engine compiled before.
\<close>

lemma run_reads_the_builder:
  "run tick (afterCompile (validateFacts (\<lambda>f w. (Some (Error ''invalid facts''), w)))
              (compiled immutableRuleset)) (runOptions JNull) startEnv
   = Inl (Error ''invalid facts'')"
  by (simp add: immutableRuleset_def builder_defs run_defs afterCompile_def)

end
